theory Spec2Isabelle
  imports Complex_Main "HOL-Library.AList"
begin

section \<open>JavaScript values\<close>

text \<open>
  The front end (\<^verbatim>\<open>static/js/app.js\<close> and its rewrite \<^verbatim>\<open>static/js/app_fixed.js\<close>)
  receives JSON over Socket.IO and over \<^verbatim>\<open>fetch\<close>. A message is a JSON value; on top of
  these the code sees \<^verbatim>\<open>undefined\<close> when it reads a field that is absent.
  Numbers are the integer-valued ones of the safe range (\<open>|n| \<le> 2^53\<close>), strings are
  ASCII. An object is the list of its own properties in insertion order, keys distinct.
  The page is the one the scripts are written for: the elements they look up without a
  guard exist.
\<close>

datatype jsval =
    JUndefined
  | JNull
  | JBool bool
  | JNum int
  | JStr string
  | JArr "jsval list"
  | JObj "(string \<times> jsval) list"

text \<open>The only exception the modelled code can raise by itself.\<close>

datatype error = TypeError

text \<open>\<^verbatim>\<open>!v\<close> is \<open>\<not> truthy v\<close>; \<^verbatim>\<open>a || b\<close> is \<open>js_or a b\<close>.\<close>

fun truthy :: "jsval \<Rightarrow> bool" where
  "truthy JUndefined = False"
| "truthy JNull = False"
| "truthy (JBool b) = b"
| "truthy (JNum n) = (n \<noteq> 0)"
| "truthy (JStr s) = (s \<noteq> [])"
| "truthy (JArr xs) = True"
| "truthy (JObj kvs) = True"

definition js_or :: "jsval \<Rightarrow> jsval \<Rightarrow> jsval" where
  "js_or a b = (if truthy a then a else b)"

definition nullish :: "jsval \<Rightarrow> bool" where
  "nullish v = (v = JUndefined \<or> v = JNull)"

definition is_num :: "jsval \<Rightarrow> bool" where
  "is_num v = (case v of JNum n \<Rightarrow> True | _ \<Rightarrow> False)"

text \<open>
  \<open>field v k\<close> is the property read \<^verbatim>\<open>v.k\<close> on a value that is neither \<^verbatim>\<open>null\<close> nor
  \<^verbatim>\<open>undefined\<close>, for the field names the code reads from messages (\<^verbatim>\<open>symbol\<close>,
  \<^verbatim>\<open>data\<close>, \<^verbatim>\<open>price\<close>, ...): none of them is an index, \<^verbatim>\<open>length\<close>, or a property of
  a built-in prototype, so the read yields the own property or \<^verbatim>\<open>undefined\<close>.
  A read on \<^verbatim>\<open>null\<close> or \<^verbatim>\<open>undefined\<close> throws a TypeError: the callers test \<open>nullish\<close>
  first.
\<close>

definition field :: "jsval \<Rightarrow> string \<Rightarrow> jsval" where
  "field v k =
     (case v of
        JObj kvs \<Rightarrow> (case map_of kvs k of Some x \<Rightarrow> x | None \<Rightarrow> JUndefined)
      | _ \<Rightarrow> JUndefined)"

text \<open>Decimal digits, for \<^verbatim>\<open>Number.prototype.toString\<close> on integers.\<close>

definition digit_char :: "nat \<Rightarrow> char" where
  "digit_char d = ''0123456789'' ! d"

function show_nat :: "nat \<Rightarrow> string" where
  "show_nat n =
     (if n < 10 then [digit_char n] else show_nat (n div 10) @ [digit_char (n mod 10)])"
  by pat_completeness auto
termination
  by (relation "measure id") auto

declare show_nat.simps [simp del]

definition show_int :: "int \<Rightarrow> string" where
  "show_int i = (if i < 0 then CHR ''-'' # show_nat (nat (- i)) else show_nat (nat i))"



fun join_comma :: "string list \<Rightarrow> string" where
  "join_comma [] = []"
| "join_comma [s] = s"
| "join_comma (s # t # ss) = s @ CHR '','' # join_comma (t # ss)"

text \<open>
  Conversion to a string or a number (template literals, property keys, \<^verbatim>\<open>>=\<close>,
  \<^verbatim>\<open>new Date(v)\<close>) goes through \<^verbatim>\<open>ToPrimitive\<close>. A JSON value is never callable, so an
  object with an own \<^verbatim>\<open>toString\<close> property shadows \<^verbatim>\<open>Object.prototype.toString\<close> with
  something that cannot be called, and the conversion throws a TypeError; an array
  converts by joining its elements, and throws when one of them does.
  \<open>str_of v\<close> is the string where the conversion does not throw.
\<close>

fun conv_throws :: "jsval \<Rightarrow> bool" where
  "conv_throws (JArr xs) = list_ex conv_throws xs"
| "conv_throws (JObj kvs) = (''toString'' \<in> set (map fst kvs))"
| "conv_throws v = False"

fun str_of :: "jsval \<Rightarrow> string" where
  "str_of JUndefined = ''undefined''"
| "str_of JNull = ''null''"
| "str_of (JBool b) = (if b then ''true'' else ''false'')"
| "str_of (JNum n) = show_int n"
| "str_of (JStr s) = s"
| "str_of (JArr xs) =
     join_comma (map (\<lambda>x. if x = JUndefined \<or> x = JNull then [] else str_of x) xs)"
| "str_of (JObj kvs) = ''[object Object]''"

text \<open>\<^verbatim>\<open>{...v}\<close>: the own enumerable properties a spread copies.\<close>

fun own_props :: "jsval \<Rightarrow> (string \<times> jsval) list" where
  "own_props (JObj kvs) = kvs"
| "own_props (JArr xs) = map (\<lambda>i. (show_nat i, xs ! i)) [0..<length xs]"
| "own_props (JStr s) = map (\<lambda>i. (show_nat i, JStr [s ! i])) [0..<length s]"
| "own_props v = []"

text \<open>
  The names \<^verbatim>\<open>Object.prototype\<close> defines. A lookup \<^verbatim>\<open>o[k]\<close> on a plain object that has
  no own property \<open>k\<close> finds a function or object (a truthy value) for these names, and
  \<^verbatim>\<open>undefined\<close> for every other name.
\<close>

definition object_prototype_names :: "string list" where
  "object_prototype_names =
     [''constructor'', ''__defineGetter__'', ''__defineSetter__'', ''hasOwnProperty'',
      ''__lookupGetter__'', ''__lookupSetter__'', ''isPrototypeOf'',
      ''propertyIsEnumerable'', ''toString'', ''valueOf'', ''__proto__'',
      ''toLocaleString'']"

text \<open>
  \<^verbatim>\<open>this.stocks\<close> is written under keys that come from the wire. An assignment under
  the key \<^verbatim>\<open>__proto__\<close> reaches the setter of \<^verbatim>\<open>Object.prototype\<close> and replaces the
  prototype instead of creating a property, unless an own property of that name
  already shadows the setter on the object or on its current prototype. The assigned
  values are always fresh object literals; \<open>proto\<close> holds the own properties of the
  replacing prototype.
\<close>

record jsobject =
  own :: "(string \<times> jsval) list"
  proto :: "(string \<times> jsval) list option"

definition empty_object :: jsobject where
  "empty_object = \<lparr>own = [], proto = None\<rparr>"

definition proto_has :: "jsobject \<Rightarrow> string \<Rightarrow> bool" where
  "proto_has ob k = (case proto ob of None \<Rightarrow> False | Some ps \<Rightarrow> map_of ps k \<noteq> None)"

definition obj_assign :: "string \<Rightarrow> (string \<times> jsval) list \<Rightarrow> jsobject \<Rightarrow> jsobject" where
  "obj_assign k lit ob =
     (if k = ''__proto__'' \<and> map_of (own ob) k = None \<and> \<not> proto_has ob k
      then ob\<lparr>proto := Some lit\<rparr>
      else ob\<lparr>own := AList.update k (JObj lit) (own ob)\<rparr>)"

text \<open>Whether \<^verbatim>\<open>ob[k]\<close> is truthy: own property, then the prototype chain.\<close>

definition obj_truthy :: "jsobject \<Rightarrow> string \<Rightarrow> bool" where
  "obj_truthy ob k =
     (case map_of (own ob) k of
        Some v \<Rightarrow> truthy v
      | None \<Rightarrow>
          (case (case proto ob of None \<Rightarrow> None | Some ps \<Rightarrow> map_of ps k) of
             Some v \<Rightarrow> truthy v
           | None \<Rightarrow> k \<in> set object_prototype_names))"

section \<open>app.js: the chart buffers\<close>

text \<open>
  \<^verbatim>\<open>this.chartData[symbol] = {prices: [], volumes: [], timestamps: []}\<close> and the arrays
  Chart.js is pointed at (\<^verbatim>\<open>this.chart.data\<close>). \<^verbatim>\<open>this.chart\<close> is \<^verbatim>\<open>null\<close> until
  \<^verbatim>\<open>initChart\<close> has run.
\<close>

record chart_series =
  prices :: "jsval list"
  volumes :: "jsval list"
  timestamps :: "string list"

record chart_view =
  labels :: "string list"
  dataset0 :: "jsval list"
  dataset1 :: "jsval list"

text \<open>What \<^verbatim>\<open>updateStatus\<close> last wrote: the text (named, the literals are Chinese) and the type.\<close>

datatype status_text =
    Text_connected
  | Text_disconnected
  | Text_monitoring
  | Text_running
  | Text_unknown
  | Text_started
  | Text_stopped

record app =
  isConnected :: bool
  isMonitoring :: bool
  stocks :: jsobject
  alerts :: "jsval list"
  chart :: "chart_view option"
  chartData :: "(string \<times> chart_series) list"
  statusShown :: "(status_text \<times> string) option"

definition init_app :: app where
  "init_app =
     \<lparr>isConnected = False, isMonitoring = False, stocks = empty_object, alerts = [],
      chart = Some \<lparr>labels = [], dataset0 = [], dataset1 = []\<rparr>, chartData = [],
      statusShown = None\<rparr>"

text \<open>
  \<^verbatim>\<open>updateChartData(symbol, stockData)\<close> of app.js. \<open>now\<close> is
  \<^verbatim>\<open>new Date().toLocaleTimeString()\<close>. The result pairs the exception, if one is thrown,
  with the state the call leaves behind.
  \<^item> The key is \<^verbatim>\<open>ToPropertyKey(symbol)\<close>; the conversion can throw.
  \<^item> Under a name of \<^verbatim>\<open>Object.prototype\<close> the lookup is truthy, no entry is created,
    and \<^verbatim>\<open>data.prices\<close> is \<^verbatim>\<open>undefined\<close>: \<^verbatim>\<open>.push\<close> throws.
  \<^item> \<^verbatim>\<open>stockData.price\<close> throws on \<^verbatim>\<open>null\<close>/\<^verbatim>\<open>undefined\<close>, after the entry was created.
  \<^item> \<^verbatim>\<open>shift()\<close> removes the first element (\<open>tl\<close>).
  \<^item> \<^verbatim>\<open>this.chart.data.labels = ...\<close> throws when \<^verbatim>\<open>this.chart\<close> is \<^verbatim>\<open>null\<close>.
\<close>

definition new_series :: chart_series where
  "new_series = \<lparr>prices = [], volumes = [], timestamps = []\<rparr>"

definition push_series :: "jsval \<Rightarrow> string \<Rightarrow> chart_series \<Rightarrow> chart_series" where
  "push_series stockData now d =
     (let d1 = d\<lparr>prices := prices d @ [js_or (field stockData ''price'') (JNum 0)],
                 volumes := volumes d @ [js_or (field stockData ''volume'') (JNum 0)],
                 timestamps := timestamps d @ [now]\<rparr>
      in if length (prices d1) > 20
         then d1\<lparr>prices := tl (prices d1), volumes := tl (volumes d1),
                 timestamps := tl (timestamps d1)\<rparr>
         else d1)"

definition updateChartData :: "jsval \<Rightarrow> jsval \<Rightarrow> string \<Rightarrow> app \<Rightarrow> error option \<times> app" where
  "updateChartData symbol stockData now a =
     (if conv_throws symbol then (Some TypeError, a)
      else
        let k = str_of symbol in
        if k \<in> set object_prototype_names then (Some TypeError, a)
        else
          let d0 = (case map_of (chartData a) k of None \<Rightarrow> new_series | Some d \<Rightarrow> d);
              a1 = a\<lparr>chartData := AList.update k d0 (chartData a)\<rparr>
          in if nullish stockData then (Some TypeError, a1)
             else
               let d = push_series stockData now d0;
                   a2 = a1\<lparr>chartData := AList.update k d (chartData a1)\<rparr>
               in (case chart a2 of
                     None \<Rightarrow> (Some TypeError, a2)
                   | Some c \<Rightarrow>
                       (None, a2\<lparr>chart := Some (c\<lparr>labels := timestamps d,
                                                   dataset0 := prices d,
                                                   dataset1 := volumes d\<rparr>)\<rparr>)))"

section \<open>app_fixed.js: the chart buffers\<close>

text \<open>
  \<^verbatim>\<open>this.chartData[symbol] = {label: symbol, data: [], borderColor: ..., fill: false}\<close>;
  a point is \<^verbatim>\<open>{x: now, y: price}\<close>. The Chart.js object that \<^verbatim>\<open>updateChart\<close> copies the
  datasets into is outside the state kept here; \<^verbatim>\<open>updateChart\<close> writes nothing else and
  does not throw.
\<close>

record dataset =
  ds_label :: jsval
  ds_data :: "(string \<times> jsval) list"
  borderColor :: string
  fill :: bool

text \<open>A dialog opened with \<^verbatim>\<open>alert(...)\<close> (the literals are Chinese).\<close>

datatype dialog =
    Enter_symbol
  | Already_monitored string

record app_fixed =
  isConnected_f :: bool
  isMonitoring_f :: bool
  stocks_f :: jsobject
  alerts_f :: "jsval list"
  chartData_f :: "(string \<times> dataset) list"
  statusShown_f :: "(status_text \<times> string) option"
  stockSymbol_f :: "string option"
  emitted_f :: "(string \<times> jsval) list"
  dialogs_f :: "dialog list"

definition init_app_fixed :: app_fixed where
  "init_app_fixed =
     \<lparr>isConnected_f = False, isMonitoring_f = False, stocks_f = empty_object,
      alerts_f = [], chartData_f = [], statusShown_f = None, stockSymbol_f = Some [],
      emitted_f = [], dialogs_f = []\<rparr>"

text \<open>
  \<^verbatim>\<open>updateChartData(symbol, stockData)\<close> of app_fixed.js. \<open>now\<close> is the time label and
  \<open>color\<close> the result of \<^verbatim>\<open>getRandomColor()\<close>.
  \<^item> \<^verbatim>\<open>stockData.price\<close> throws on \<^verbatim>\<open>null\<close>/\<^verbatim>\<open>undefined\<close>.
  \<^item> A falsy price returns at once: nothing is pushed.
  \<^item> Under a name of \<^verbatim>\<open>Object.prototype\<close> no entry is created and \<^verbatim>\<open>.data.push\<close> throws.
\<close>

definition push_point :: "string \<Rightarrow> jsval \<Rightarrow> dataset \<Rightarrow> dataset" where
  "push_point now price d =
     (let d1 = d\<lparr>ds_data := ds_data d @ [(now, price)]\<rparr>
      in if length (ds_data d1) > 20 then d1\<lparr>ds_data := tl (ds_data d1)\<rparr> else d1)"

definition updateChartData_fixed ::
    "jsval \<Rightarrow> jsval \<Rightarrow> string \<Rightarrow> string \<Rightarrow> app_fixed \<Rightarrow> error option \<times> app_fixed" where
  "updateChartData_fixed symbol stockData now color a =
     (if nullish stockData then (Some TypeError, a)
      else
        let price = field stockData ''price'' in
        if \<not> truthy price then (None, a)
        else if conv_throws symbol then (Some TypeError, a)
        else
          let k = str_of symbol in
          if k \<in> set object_prototype_names then (Some TypeError, a)
          else
            let d0 = (case map_of (chartData_f a) k of
                        None \<Rightarrow> \<lparr>ds_label = symbol, ds_data = [], borderColor = color,
                                   fill = False\<rparr>
                      | Some d \<Rightarrow> d)
            in (None, a\<lparr>chartData_f := AList.update k (push_point now price d0) (chartData_f a)\<rparr>))"

text \<open>
  A run of \<^verbatim>\<open>updateChartData\<close> calls, one per \<^verbatim>\<open>stock_update\<close> event that reaches it. An
  exception ends one handler call, not the application: the next event is handled in
  the state the failed call left.
\<close>

type_synonym chart_call = "jsval \<times> jsval \<times> string"

type_synonym chart_call_fixed = "jsval \<times> jsval \<times> string \<times> string"

definition run_updateChartData :: "chart_call list \<Rightarrow> app \<Rightarrow> app" where
  "run_updateChartData calls a =
     fold (\<lambda>(symbol, stockData, now) s. snd (updateChartData symbol stockData now s)) calls a"

definition run_updateChartData_fixed :: "chart_call_fixed list \<Rightarrow> app_fixed \<Rightarrow> app_fixed" where
  "run_updateChartData_fixed calls a =
     fold (\<lambda>(symbol, stockData, now, color) s.
             snd (updateChartData_fixed symbol stockData now color s)) calls a"

text \<open>The buffer kept under a key; an absent entry holds nothing.\<close>

definition series_of :: "app \<Rightarrow> string \<Rightarrow> chart_series" where
  "series_of a k = (case map_of (chartData a) k of None \<Rightarrow> new_series | Some d \<Rightarrow> d)"

definition points_of :: "app_fixed \<Rightarrow> string \<Rightarrow> (string \<times> jsval) list" where
  "points_of a k = (case map_of (chartData_f a) k of None \<Rightarrow> [] | Some d \<Rightarrow> ds_data d)"

text \<open>
  The calls that push a point onto the buffer of key \<open>k\<close>, and the points they push, in
  arrival order. In app.js every call that gets as far as \<^verbatim>\<open>push\<close> pushes (a missing
  price counts as 0); in app_fixed.js a call with a falsy price pushes nothing.
\<close>

definition pushes :: "string \<Rightarrow> chart_call \<Rightarrow> bool" where
  "pushes k c =
     (case c of (symbol, stockData, now) \<Rightarrow>
        \<not> conv_throws symbol \<and> str_of symbol = k \<and> k \<notin> set object_prototype_names \<and>
        \<not> nullish stockData)"

definition pushed_prices :: "string \<Rightarrow> chart_call list \<Rightarrow> jsval list" where
  "pushed_prices k calls =
     map (\<lambda>(symbol, stockData, now). js_or (field stockData ''price'') (JNum 0))
       (filter (pushes k) calls)"

definition pushed_volumes :: "string \<Rightarrow> chart_call list \<Rightarrow> jsval list" where
  "pushed_volumes k calls =
     map (\<lambda>(symbol, stockData, now). js_or (field stockData ''volume'') (JNum 0))
       (filter (pushes k) calls)"

definition pushed_timestamps :: "string \<Rightarrow> chart_call list \<Rightarrow> string list" where
  "pushed_timestamps k calls = map (\<lambda>(symbol, stockData, now). now) (filter (pushes k) calls)"

definition pushes_fixed :: "string \<Rightarrow> chart_call_fixed \<Rightarrow> bool" where
  "pushes_fixed k c =
     (case c of (symbol, stockData, now, color) \<Rightarrow>
        \<not> nullish stockData \<and> truthy (field stockData ''price'') \<and> \<not> conv_throws symbol \<and>
        str_of symbol = k \<and> k \<notin> set object_prototype_names)"

definition pushed_fixed :: "string \<Rightarrow> chart_call_fixed list \<Rightarrow> (string \<times> jsval) list" where
  "pushed_fixed k calls =
     map (\<lambda>(symbol, stockData, now, color). (now, field stockData ''price''))
       (filter (pushes_fixed k) calls)"

text \<open>The last \<open>n\<close> elements of a list, oldest first.\<close>

definition lastn :: "nat \<Rightarrow> 'a list \<Rightarrow> 'a list" where
  "lastn n xs = drop (length xs - n) xs"

text \<open>The invariant of one \<^verbatim>\<open>chartData\<close> entry of app.js, and of all of them.\<close>

definition series_ok :: "chart_series \<Rightarrow> bool" where
  "series_ok d =
     (length (prices d) = length (volumes d) \<and> length (volumes d) = length (timestamps d) \<and>
      length (prices d) \<le> 20)"

definition chartData_ok :: "app \<Rightarrow> bool" where
  "chartData_ok a = list_all (\<lambda>kd. series_ok (snd kd)) (chartData a)"

text \<open>Twenty-two updates of one symbol, priced 1 to 22.\<close>

definition aapl_calls :: "chart_call list" where
  "aapl_calls =
     map (\<lambda>n. (JStr ''AAPL'', JObj [(''price'', JNum n)], ''t''))
       [1, 2, 3, 4, 5, 6, 7, 8, 9, 10, 11, 12, 13, 14, 15, 16, 17, 18, 19, 20, 21, 22]"

section \<open>Alerts\<close>

text \<open>
  \<^verbatim>\<open>handleAlert\<close>: the state after the call. The rendering and the desktop notification
  that follow the update of \<^verbatim>\<open>this.alerts\<close> write no field of the application.
  app.js puts the new alert first (\<^verbatim>\<open>unshift\<close>) and drops the last one (\<^verbatim>\<open>pop\<close>) when the
  list has grown past 20; app_fixed.js appends (\<^verbatim>\<open>push\<close>) and drops nothing, the list is
  emptied by \<^verbatim>\<open>clearAlerts\<close>.
\<close>

definition handleAlert :: "jsval \<Rightarrow> app \<Rightarrow> app" where
  "handleAlert alert a =
     (let al = alert # alerts a
      in a\<lparr>alerts := (if length al > 20 then butlast al else al)\<rparr>)"

definition handleAlert_fixed :: "jsval \<Rightarrow> app_fixed \<Rightarrow> app_fixed" where
  "handleAlert_fixed alert a = a\<lparr>alerts_f := alerts_f a @ [alert]\<rparr>"

definition clearAlerts :: "app_fixed \<Rightarrow> app_fixed" where
  "clearAlerts a = a\<lparr>alerts_f := []\<rparr>"

definition run_handleAlert :: "jsval list \<Rightarrow> app \<Rightarrow> app" where
  "run_handleAlert evs a = fold handleAlert evs a"

definition run_handleAlert_fixed :: "jsval list \<Rightarrow> app_fixed \<Rightarrow> app_fixed" where
  "run_handleAlert_fixed evs a = fold handleAlert_fixed evs a"

text \<open>
  What \<^verbatim>\<open>updateAlertsDisplay\<close> writes into the alerts container: the placeholder of the
  empty list (app.js only), or one card per alert. A card is given by the values
  interpolated into its template: the CSS class (app.js only), the symbol, the argument
  of \<^verbatim>\<open>new Date(...)\<close>, and the message. Reading a field of a \<^verbatim>\<open>null\<close> alert throws, and so
  does an interpolated value that cannot be converted.
\<close>

record alert_card =
  card_class :: jsval
  card_symbol :: jsval
  card_time :: jsval
  card_message :: jsval

datatype alerts_html = No_alerts | Cards "alert_card list"

definition alert_card_of :: "jsval \<Rightarrow> alert_card" where
  "alert_card_of alert =
     \<lparr>card_class = js_or (field alert ''type'') (JStr ''warning''),
      card_symbol = field alert ''symbol'',
      card_time = field alert ''timestamp'',
      card_message = field alert ''message''\<rparr>"

definition card_throws :: "jsval \<Rightarrow> bool" where
  "card_throws alert =
     (nullish alert \<or> conv_throws (js_or (field alert ''type'') (JStr ''warning'')) \<or>
      conv_throws (field alert ''symbol'') \<or> conv_throws (field alert ''timestamp'') \<or>
      conv_throws (field alert ''message''))"

definition updateAlertsDisplay :: "app \<Rightarrow> error + alerts_html" where
  "updateAlertsDisplay a =
     (if alerts a = [] then Inr No_alerts
      else if list_ex card_throws (alerts a) then Inl TypeError
      else Inr (Cards (map alert_card_of (alerts a))))"

record alert_card_fixed =
  fcard_symbol :: jsval
  fcard_message :: jsval
  fcard_time :: jsval

definition alert_card_fixed_of :: "jsval \<Rightarrow> alert_card_fixed" where
  "alert_card_fixed_of alert =
     \<lparr>fcard_symbol = field alert ''symbol'',
      fcard_message = field alert ''message'',
      fcard_time = field alert ''timestamp''\<rparr>"

definition card_throws_fixed :: "jsval \<Rightarrow> bool" where
  "card_throws_fixed alert =
     (nullish alert \<or> conv_throws (field alert ''symbol'') \<or>
      conv_throws (field alert ''message'') \<or> conv_throws (field alert ''timestamp''))"

definition updateAlertsDisplay_fixed :: "app_fixed \<Rightarrow> error + alert_card_fixed list" where
  "updateAlertsDisplay_fixed a =
     (if list_ex card_throws_fixed (alerts_f a) then Inl TypeError
      else Inr (map alert_card_fixed_of (alerts_f a)))"

text \<open>
  Modelled from the spec: the AlertEvent structure of the alert feed, ``with fields
  \<^verbatim>\<open>{symbol, type, severity, message, data:{...}, timestamp}\<close>''. The emitter of the feed
  is server code that is not among the sources.
\<close>

definition alert_fields :: "string list" where
  "alert_fields = [''symbol'', ''type'', ''severity'', ''message'', ''data'', ''timestamp'']"

definition alert_event ::
    "jsval \<Rightarrow> jsval \<Rightarrow> jsval \<Rightarrow> jsval \<Rightarrow> jsval \<Rightarrow> jsval \<Rightarrow> jsval" where
  "alert_event symbol type severity message payload timestamp =
     JObj [(''symbol'', symbol), (''type'', type), (''severity'', severity),
           (''message'', message), (''data'', payload), (''timestamp'', timestamp)]"

text \<open>An object cut down to the fields named; any other value is left as it is.\<close>

definition restrict :: "string list \<Rightarrow> jsval \<Rightarrow> jsval" where
  "restrict ks v =
     (case v of JObj kvs \<Rightarrow> JObj (filter (\<lambda>kv. fst kv \<in> set ks) kvs) | _ \<Rightarrow> v)"

section \<open>Stock updates\<close>





text \<open>
  app_fixed.js. The card takes its numbers from \<^verbatim>\<open>stock.data || stock\<close>, each with a
  default (\<^verbatim>\<open>|| 0\<close>), so \<^verbatim>\<open>price?.toFixed(2)\<close> needs a number as well; the name shown
  is \<^verbatim>\<open>stock.data.name || stock.data.company || stock.symbol\<close> when \<^verbatim>\<open>stock.data\<close> is
  truthy.
\<close>

definition createStockCard_fixed :: "jsval \<Rightarrow> error option" where
  "createStockCard_fixed stock =
     (if nullish stock then Some TypeError
      else
        let stockData = js_or (field stock ''data'') stock;
            price = js_or (field stockData ''price'') (JNum 0);
            change = js_or (field stockData ''change'') (JNum 0);
            changePercent = js_or (field stockData ''change_percent'')
                              (js_or (field stockData ''changePercent'') (JNum 0));
            high = js_or (field stockData ''high'') (JNum 0);
            low = js_or (field stockData ''low'') (JNum 0);
            volume = js_or (field stockData ''volume'') (JNum 0);
            marketCap = js_or (field stockData ''market_cap'')
                          (js_or (field stockData ''marketCap'') (JNum 0));
            lastUpdate = js_or (field stock ''lastUpdate'') (field stock ''timestamp'');
            stockName =
              (if truthy (field stock ''data'')
               then js_or (field (field stock ''data'') ''name'')
                      (js_or (field (field stock ''data'') ''company'') (field stock ''symbol''))
               else field stock ''symbol'')
        in if \<not> is_num price \<or> \<not> is_num change \<or> \<not> is_num changePercent \<or>
              \<not> is_num high \<or> \<not> is_num low \<or>
              conv_throws volume \<or> conv_throws marketCap \<or> conv_throws lastUpdate \<or>
              conv_throws (field stock ''symbol'') \<or> conv_throws stockName
           then Some TypeError else None)"

definition updateStockDisplay_fixed :: "app_fixed \<Rightarrow> error option" where
  "updateStockDisplay_fixed a =
     (if list_ex (\<lambda>kv. createStockCard_fixed (snd kv) \<noteq> None) (own (stocks_f a))
      then Some TypeError else None)"

text \<open>
  \<^verbatim>\<open>handleStockUpdate(data)\<close> of app_fixed.js stores
  \<^verbatim>\<open>{...stockData, symbol: symbol, lastUpdate: timestamp}\<close>.
\<close>

definition handleStockUpdate_fixed ::
    "string \<Rightarrow> string \<Rightarrow> jsval \<Rightarrow> app_fixed \<Rightarrow> error option \<times> app_fixed" where
  "handleStockUpdate_fixed now color data a =
     (if nullish data then (Some TypeError, a)
      else
        let symbol = field data ''symbol'';
            stockData = field data ''data'';
            timestamp = field data ''timestamp''
        in if conv_throws symbol then (Some TypeError, a)
           else
             let a1 = a\<lparr>stocks_f := obj_assign (str_of symbol)
                          (AList.update ''lastUpdate'' timestamp
                             (AList.update ''symbol'' symbol (own_props stockData)))
                          (stocks_f a)\<rparr>
             in (case updateStockDisplay_fixed a1 of
                   Some e \<Rightarrow> (Some e, a1)
                 | None \<Rightarrow> updateChartData_fixed symbol stockData now color a1))"


section \<open>System status\<close>

text \<open>
  \<^verbatim>\<open>v?.length\<close> as \<^verbatim>\<open>updateSystemInfo\<close> reads it from \<^verbatim>\<open>data.monitored_symbols\<close>.
\<close>

definition opt_length :: "jsval \<Rightarrow> jsval" where
  "opt_length v =
     (case v of
        JArr xs \<Rightarrow> JNum (int (length xs))
      | JStr s \<Rightarrow> JNum (int (length s))
      | JObj kvs \<Rightarrow> field v ''length''
      | _ \<Rightarrow> JUndefined)"

text \<open>
  \<^verbatim>\<open>updateSystemInfo(data)\<close> of app.js writes the info panel; the handler depends on
  whether it throws: on \<^verbatim>\<open>data.status\<close> of a \<^verbatim>\<open>null\<close> reply, and on the values it
  interpolates or hands to \<^verbatim>\<open>new Date\<close>.
\<close>

definition updateSystemInfo :: "jsval \<Rightarrow> error option" where
  "updateSystemInfo data =
     (if nullish data then Some TypeError
      else if conv_throws (js_or (opt_length (field data ''monitored_symbols'')) (JNum 0)) \<or>
              conv_throws (js_or (field data ''active_alerts'') (JNum 0)) \<or>
              conv_throws (field data ''last_update'') \<or>
              conv_throws (field data ''uptime'') \<or>
              conv_throws (field data ''server_time'')
           then Some TypeError else None)"

text \<open>\<^verbatim>\<open>updateStatus(status, type)\<close> shows a text and colours the status dot by type.\<close>

definition updateStatus :: "status_text \<Rightarrow> string \<Rightarrow> app \<Rightarrow> app" where
  "updateStatus status type a = a\<lparr>statusShown := Some (status, type)\<rparr>"

definition updateStatus_fixed :: "status_text \<Rightarrow> string \<Rightarrow> app_fixed \<Rightarrow> app_fixed" where
  "updateStatus_fixed message statusClass a = a\<lparr>statusShown_f := Some (message, statusClass)\<rparr>"

text \<open>
  \<^verbatim>\<open>loadSystemStatus\<close> of app.js, given the outcome of
  \<^verbatim>\<open>(await fetch('/api/status')).json()\<close>: \<open>None\<close> when the request or the parse fails,
  the parsed reply otherwise. The body is wrapped in \<^verbatim>\<open>try/catch\<close>: an exception is
  logged and the state stays as it was at that point.
\<close>

definition loadSystemStatus :: "jsval option \<Rightarrow> app \<Rightarrow> app" where
  "loadSystemStatus reply a =
     (case reply of
        None \<Rightarrow> a
      | Some data \<Rightarrow>
          (case updateSystemInfo data of
             Some e \<Rightarrow> a
           | None \<Rightarrow>
               let a1 = a\<lparr>isMonitoring := (field data ''status'' = JStr ''running'')\<rparr>
               in if isMonitoring a1 then updateStatus Text_monitoring ''monitoring'' a1
                  else if isConnected a1 then updateStatus Text_connected ''connected'' a1
                  else a1))"

text \<open>
  \<^verbatim>\<open>loadSystemStatus\<close> of app_fixed.js: a promise chain whose \<^verbatim>\<open>catch\<close> shows ``status
  unknown''.
\<close>

definition loadSystemStatus_fixed :: "jsval option \<Rightarrow> app_fixed \<Rightarrow> app_fixed" where
  "loadSystemStatus_fixed reply a =
     (case reply of
        None \<Rightarrow> updateStatus_fixed Text_unknown ''unknown'' a
      | Some data \<Rightarrow>
          if nullish data then updateStatus_fixed Text_unknown ''unknown'' a
          else if field data ''status'' = JStr ''running''
               then updateStatus_fixed Text_running ''running'' a
               else a)"

text \<open>
  Modelled from the spec: the reply of the status query,
  ``\<^verbatim>\<open>{running: bool, symbolCount, activeAlertCount, lastUpdate}\<close>''. The server code
  that answers \<^verbatim>\<open>/api/status\<close> is not among the sources.
\<close>

definition status_reply :: "bool \<Rightarrow> jsval \<Rightarrow> jsval \<Rightarrow> jsval \<Rightarrow> jsval" where
  "status_reply running symbolCount activeAlertCount lastUpdate =
     JObj [(''running'', JBool running), (''symbolCount'', symbolCount),
           (''activeAlertCount'', activeAlertCount), (''lastUpdate'', lastUpdate)]"

text \<open>An object without the field named; any other value is left as it is.\<close>

definition without :: "string \<Rightarrow> jsval \<Rightarrow> jsval" where
  "without k v = (case v of JObj kvs \<Rightarrow> JObj (filter (\<lambda>kv. fst kv \<noteq> k) kvs) | _ \<Rightarrow> v)"

section \<open>Market overview\<close>







section \<open>app.js: formatVolume\<close>

text \<open>
  \<^verbatim>\<open>volume / 1e9\<close> is a division of doubles: the quotient of the two integers, rounded to
  the nearest number with a 53-bit mantissa, ties to the even mantissa. \<open>js_div a b\<close>
  is that double for positive \<open>a\<close> and \<open>b\<close>, as the pair \<open>(m, k)\<close> that stands for
  \<open>m * 2^k\<close> (\<open>double_val\<close>); \<open>exponent a b\<close> is the \<open>e\<close> with
  \<open>2^e \<le> a / b < 2^(e + 1)\<close>. Quotients of safe integers are far from the overflow and
  underflow of doubles.
\<close>

function flog2 :: "int \<Rightarrow> int \<Rightarrow> nat" where
  "flog2 a b = (if b \<le> 0 \<or> a < 2 * b then 0 else Suc (flog2 a (2 * b)))"
  by pat_completeness auto
termination
  by (relation "measure (\<lambda>(a, b). nat (a - b))") auto

declare flog2.simps [simp del]

function clog2 :: "int \<Rightarrow> int \<Rightarrow> nat" where
  "clog2 a b = (if a \<le> 0 \<or> b \<le> a then 0 else Suc (clog2 (2 * a) b))"
  by pat_completeness auto
termination
  by (relation "measure (\<lambda>(a, b). nat (b - a))") auto

declare clog2.simps [simp del]

definition exponent :: "int \<Rightarrow> int \<Rightarrow> int" where
  "exponent a b = (if b \<le> a then int (flog2 a b) else - int (clog2 a b))"

definition round_div :: "int \<Rightarrow> int \<Rightarrow> int" where
  "round_div num den =
     (let f = num div den; r = num mod den
      in if 2 * r < den then f else if den < 2 * r then f + 1
         else if even f then f else f + 1)"

definition js_div :: "int \<Rightarrow> int \<Rightarrow> int \<times> int" where
  "js_div a b =
     (let e = exponent a b
      in (if e \<le> 52 then round_div (a * 2 ^ nat (52 - e)) b
          else round_div a (b * 2 ^ nat (e - 52)), e - 52))"

definition double_val :: "int \<times> int \<Rightarrow> rat" where
  "double_val d = of_int (fst d) * 2 powi (snd d)"

text \<open>
  \<^verbatim>\<open>x.toFixed(2)\<close> for a double \<open>0 \<le> x < 10^21\<close>: the integer \<open>n\<close> with \<open>n / 100\<close> nearest
  to the exact value of \<open>x\<close>, the larger one of two, written with two decimals.
\<close>

definition cents :: "int \<times> int \<Rightarrow> nat" where
  "cents d =
     (let m = fst d; k = snd d
      in nat (if 0 \<le> k then 100 * m * 2 ^ nat k
              else (200 * m + 2 ^ nat (- k)) div 2 ^ nat (1 - k)))"




section \<open>app_fixed.js: addStock\<close>

text \<open>
  \<^verbatim>\<open>String.prototype.trim\<close> and \<^verbatim>\<open>toUpperCase\<close> on ASCII strings: the white space of
  ASCII is tab, line feed, vertical tab, form feed, carriage return and space.
\<close>

definition is_space :: "char \<Rightarrow> bool" where
  "is_space c = (c \<in> set [CHR 0x09, CHR 0x0A, CHR 0x0B, CHR 0x0C, CHR 0x0D, CHR '' ''])"

definition trim :: "string \<Rightarrow> string" where
  "trim s = rev (dropWhile is_space (rev (dropWhile is_space s)))"

definition upper_char :: "char \<Rightarrow> char" where
  "upper_char c =
     (case map_of (zip ''abcdefghijklmnopqrstuvwxyz'' ''ABCDEFGHIJKLMNOPQRSTUVWXYZ'') c of
        Some u \<Rightarrow> u
      | None \<Rightarrow> c)"

definition toUpperCase :: "string \<Rightarrow> string" where
  "toUpperCase s = map upper_char s"

text \<open>
  \<^verbatim>\<open>addStock()\<close>. \<open>stockSymbol_f\<close> is the value of the input element \<^verbatim>\<open>stockSymbol\<close>,
  \<open>None\<close> when the page has no such element: then
  \<^verbatim>\<open>symbolInput?.value.trim().toUpperCase()\<close> is \<^verbatim>\<open>undefined\<close>. \<open>emitted_f\<close> collects
  what \<^verbatim>\<open>this.socket.emit\<close> sent, \<open>dialogs_f\<close> the \<^verbatim>\<open>alert(...)\<close> dialogs.
\<close>

definition addStock :: "app_fixed \<Rightarrow> app_fixed" where
  "addStock a =
     (case stockSymbol_f a of
        None \<Rightarrow> a\<lparr>dialogs_f := dialogs_f a @ [Enter_symbol]\<rparr>
      | Some v \<Rightarrow>
          let symbol = toUpperCase (trim v) in
          if symbol = [] then a\<lparr>dialogs_f := dialogs_f a @ [Enter_symbol]\<rparr>
          else if obj_truthy (stocks_f a) symbol
          then a\<lparr>dialogs_f := dialogs_f a @ [Already_monitored symbol]\<rparr>
          else a\<lparr>emitted_f := emitted_f a @
                                [(''subscribe_stock'', JObj [(''symbol'', JStr symbol)])],
                 stockSymbol_f := Some []\<rparr>)"

text \<open>The user types \<open>v\<close> into the input element.\<close>

definition type_symbol :: "string \<Rightarrow> app_fixed \<Rightarrow> app_fixed" where
  "type_symbol v a = a\<lparr>stockSymbol_f := Some v\<rparr>"

section \<open>The Series Store of the engine\<close>

text \<open>
  Modelled from the spec: the Series Store (4.2) and its \<open>append\<close>, here \<open>series_append\<close>. The engine is server
  code that is not among the sources; the definitions follow the spec's words.
  \<^item> ``Sample: one observation: symbol, timestamp, price, volume''.
  \<^item> ``Series: per (symbol, interval-tier) rolling ordered sequence of Samples, capacity
    bounded; oldest sample evicted on overflow (FIFO)''.
  \<^item> ``IndicatorSnapshot: derived state attached to a Series'', recomputed by the
    Indicator Engine, ``pure function of the current Series plus the previous
    IndicatorSnapshot'': the parameter \<open>recompute\<close>.
  \<^item> ``\<open>append(symbol, tier, sample) -> AppendResult\<close>. Rejects (no-op, returns
    \<open>Stale\<close>) a sample whose timestamp is \<open>\<le>\<close> the series' last timestamp. On acceptance:
    pushes to the rolling buffer, evicts oldest if over capacity, and synchronously
    triggers Indicator Engine recomputation for that series before returning.''
  \<^item> ``every successful append also triggers Fan-out Bus.publish(instrument-update)'':
    the list \<open>published\<close>.
\<close>

datatype tier = Realtime | Minute | Hour | Day

record sample =
  sample_symbol :: string
  sample_timestamp :: int
  sample_price :: rat
  sample_volume :: rat

datatype AppendResult = Accepted | Stale

record 'i series =
  samples :: "sample list"
  capacity :: nat
  snapshot :: 'i

record 'i series_store =
  series :: "string \<times> tier \<Rightarrow> 'i series"
  published :: "(string \<times> tier \<times> sample \<times> 'i) list"

definition last_timestamp :: "'i series \<Rightarrow> int option" where
  "last_timestamp sr =
     (if samples sr = [] then None else Some (sample_timestamp (last (samples sr))))"

definition is_stale :: "sample \<Rightarrow> 'i series \<Rightarrow> bool" where
  "is_stale s sr = (case last_timestamp sr of None \<Rightarrow> False | Some t \<Rightarrow> sample_timestamp s \<le> t)"

definition push_sample :: "('i \<Rightarrow> sample list \<Rightarrow> 'i) \<Rightarrow> sample \<Rightarrow> 'i series \<Rightarrow> 'i series" where
  "push_sample recompute s sr =
     (let xs = samples sr @ [s];
          ys = (if length xs > capacity sr then tl xs else xs)
      in sr\<lparr>samples := ys, snapshot := recompute (snapshot sr) ys\<rparr>)"

definition series_append ::
    "('i \<Rightarrow> sample list \<Rightarrow> 'i) \<Rightarrow> string \<Rightarrow> tier \<Rightarrow> sample \<Rightarrow> 'i series_store \<Rightarrow>
     AppendResult \<times> 'i series_store" where
  "series_append recompute symbol tr s st =
     (let sr = series st (symbol, tr)
      in if is_stale s sr then (Stale, st)
         else
           let sr' = push_sample recompute s sr
           in (Accepted,
               st\<lparr>series := (series st)((symbol, tr) := sr'),
                  published := published st @ [(symbol, tr, s, snapshot sr')]\<rparr>))"

section \<open>Fields and sample inputs named in the properties\<close>



text \<open>The fields an alert card shows, in app.js and in app_fixed.js.\<close>

definition card_fields :: "string list" where
  "card_fields = [''type'', ''symbol'', ''timestamp'', ''message'']"

definition card_fields_fixed :: "string list" where
  "card_fields_fixed = [''symbol'', ''message'', ''timestamp'']"



text \<open>Twenty alerts, the newest (20) first, as app.js keeps them.\<close>

definition twenty_alerts :: "jsval list" where
  "twenty_alerts =
     map JNum [20, 19, 18, 17, 16, 15, 14, 13, 12, 11, 10, 9, 8, 7, 6, 5, 4, 3, 2, 1]"

text \<open>
  \<^verbatim>\<open>this.stocks\<close> as \<^verbatim>\<open>handleStockUpdate\<close> fills it from symbols other than \<^verbatim>\<open>__proto__\<close>:
  the original prototype, and an object (a truthy value) under every own key.
\<close>

definition stocks_plain :: "jsobject \<Rightarrow> bool" where
  "stocks_plain ob = (proto ob = None \<and> list_all (\<lambda>kv. truthy (snd kv)) (own ob))"

text \<open>The message \<^verbatim>\<open>addStock\<close> emits for a symbol.\<close>

definition subscribe :: "string \<Rightarrow> string \<times> jsval" where
  "subscribe symbol = (''subscribe_stock'', JObj [(''symbol'', JStr symbol)])"

text \<open>
  A store whose every series holds one AAPL sample of timestamp 10, with the number of
  samples as its indicator snapshot.
\<close>

definition aapl_sample :: "int \<Rightarrow> sample" where
  "aapl_sample t =
     \<lparr>sample_symbol = ''AAPL'', sample_timestamp = t, sample_price = 100, sample_volume = 5\<rparr>"

definition count_store :: "nat series_store" where
  "count_store =
     \<lparr>series = (\<lambda>key. \<lparr>samples = [aapl_sample 10], capacity = 3, snapshot = 1\<rparr>),
      published = []\<rparr>"

section \<open>Properties of the chart buffers\<close>

lemma lastn_snoc:
  "lastn 20 (xs @ [x]) =
     (if length (lastn 20 xs @ [x]) > 20 then tl (lastn 20 xs @ [x]) else lastn 20 xs @ [x])"
proof (cases "length xs < 20")
  case True
  then show ?thesis by (simp add: lastn_def)
next
  case False
  then have n: "length xs - 19 = Suc (length xs - 20)" and ne: "drop (length xs - 20) xs \<noteq> []"
    by simp_all
  show ?thesis
    using False ne by (simp add: lastn_def n drop_Suc tl_drop)
qed

lemma length_lastn: "length (lastn n xs) = min n (length xs)"
  by (simp add: lastn_def)

lemma lastn_Nil: "lastn n [] = []"
  by (simp add: lastn_def)

text \<open>What one call does to the buffer of a key.\<close>

lemma series_of_step:
  "series_of (snd (updateChartData symbol sd now a)) k =
     (if pushes k (symbol, sd, now) then push_series sd now (series_of a k) else series_of a k)"
  by (simp add: updateChartData_def series_of_def pushes_def Let_def update_conv'
      split: option.split)

lemma points_of_step:
  "points_of (snd (updateChartData_fixed symbol sd now color a)) k =
     (if pushes_fixed k (symbol, sd, now, color)
      then ds_data (push_point now (field sd ''price'')
             (case map_of (chartData_f a) k of
                None \<Rightarrow> \<lparr>ds_label = symbol, ds_data = [], borderColor = color, fill = False\<rparr>
              | Some d \<Rightarrow> d))
      else points_of a k)"
  by (simp add: updateChartData_fixed_def points_of_def pushes_fixed_def Let_def update_conv'
      split: option.split)

lemma run_updateChartData_snoc:
  "run_updateChartData (calls @ [(symbol, sd, now)]) a =
     snd (updateChartData symbol sd now (run_updateChartData calls a))"
  by (simp add: run_updateChartData_def)

lemma run_updateChartData_fixed_snoc:
  "run_updateChartData_fixed (calls @ [(symbol, sd, now, color)]) a =
     snd (updateChartData_fixed symbol sd now color (run_updateChartData_fixed calls a))"
  by (simp add: run_updateChartData_fixed_def)

lemma pushed_snoc:
  "pushed_prices k (calls @ [(symbol, sd, now)]) =
     (if pushes k (symbol, sd, now)
      then pushed_prices k calls @ [js_or (field sd ''price'') (JNum 0)]
      else pushed_prices k calls)"
  "pushed_volumes k (calls @ [(symbol, sd, now)]) =
     (if pushes k (symbol, sd, now)
      then pushed_volumes k calls @ [js_or (field sd ''volume'') (JNum 0)]
      else pushed_volumes k calls)"
  "pushed_timestamps k (calls @ [(symbol, sd, now)]) =
     (if pushes k (symbol, sd, now) then pushed_timestamps k calls @ [now]
      else pushed_timestamps k calls)"
  by (simp_all add: pushed_prices_def pushed_volumes_def pushed_timestamps_def)

lemma length_pushed:
  "length (pushed_prices k calls) = length (pushed_volumes k calls)"
  "length (pushed_volumes k calls) = length (pushed_timestamps k calls)"
  by (simp_all add: pushed_prices_def pushed_volumes_def pushed_timestamps_def)

lemma pushed_fixed_snoc:
  "pushed_fixed k (calls @ [(symbol, sd, now, color)]) =
     (if pushes_fixed k (symbol, sd, now, color)
      then pushed_fixed k calls @ [(now, field sd ''price'')]
      else pushed_fixed k calls)"
  by (simp add: pushed_fixed_def)

lemma push_series_lastn:
  assumes "prices d = lastn 20 ps" and "volumes d = lastn 20 vs"
    and "timestamps d = lastn 20 ts" and "length ps = length vs" and "length vs = length ts"
  shows "prices (push_series sd now d) =
           lastn 20 (ps @ [js_or (field sd ''price'') (JNum 0)]) \<and>
         volumes (push_series sd now d) =
           lastn 20 (vs @ [js_or (field sd ''volume'') (JNum 0)]) \<and>
         timestamps (push_series sd now d) = lastn 20 (ts @ [now])"
  using assms by (simp add: push_series_def Let_def lastn_snoc length_lastn)

lemma series_fifo:
  "prices (series_of (run_updateChartData calls init_app) k) = lastn 20 (pushed_prices k calls) \<and>
   volumes (series_of (run_updateChartData calls init_app) k) =
     lastn 20 (pushed_volumes k calls) \<and>
   timestamps (series_of (run_updateChartData calls init_app) k) =
     lastn 20 (pushed_timestamps k calls)"
proof (induction calls rule: rev_induct)
  case Nil
  show ?case
    by (simp add: run_updateChartData_def series_of_def init_app_def new_series_def
        pushed_prices_def pushed_volumes_def pushed_timestamps_def lastn_Nil)
next
  case (snoc c calls)
  obtain symbol sd now where c: "c = (symbol, sd, now)"
    by (cases c) auto
  let ?d = "series_of (run_updateChartData calls init_app) k"
  show ?case
  proof (cases "pushes k c")
    case True
    have "prices (push_series sd now ?d) =
            lastn 20 (pushed_prices k calls @ [js_or (field sd ''price'') (JNum 0)]) \<and>
          volumes (push_series sd now ?d) =
            lastn 20 (pushed_volumes k calls @ [js_or (field sd ''volume'') (JNum 0)]) \<and>
          timestamps (push_series sd now ?d) = lastn 20 (pushed_timestamps k calls @ [now])"
      using snoc.IH by (intro push_series_lastn) (simp_all add: length_pushed)
    with True show ?thesis
      unfolding c run_updateChartData_snoc series_of_step pushed_snoc by simp
  next
    case False
    with snoc.IH show ?thesis
      unfolding c run_updateChartData_snoc series_of_step pushed_snoc by simp
  qed
qed

lemma push_point_lastn:
  "ds_data d = lastn 20 pts \<Longrightarrow> ds_data (push_point now p d) = lastn 20 (pts @ [(now, p)])"
  by (simp add: push_point_def Let_def lastn_snoc length_lastn)

lemma points_fifo:
  "points_of (run_updateChartData_fixed calls init_app_fixed) k = lastn 20 (pushed_fixed k calls)"
proof (induction calls rule: rev_induct)
  case Nil
  show ?case
    by (simp add: run_updateChartData_fixed_def points_of_def init_app_fixed_def pushed_fixed_def
        lastn_Nil)
next
  case (snoc c calls)
  obtain symbol sd now color where c: "c = (symbol, sd, now, color)"
    by (cases c) auto
  let ?a = "run_updateChartData_fixed calls init_app_fixed"
  show ?case
  proof (cases "pushes_fixed k c")
    case True
    let ?d = "case map_of (chartData_f ?a) k of
                None \<Rightarrow> \<lparr>ds_label = symbol, ds_data = [], borderColor = color, fill = False\<rparr>
              | Some d \<Rightarrow> d"
    have "ds_data ?d = points_of ?a k"
      by (simp add: points_of_def split: option.split)
    then have "ds_data ?d = lastn 20 (pushed_fixed k calls)"
      using snoc.IH by simp
    from push_point_lastn [OF this, of now "field sd ''price''"] True
    show ?thesis
      unfolding c run_updateChartData_fixed_snoc points_of_step pushed_fixed_snoc by simp
  next
    case False
    with snoc.IH show ?thesis
      unfolding c run_updateChartData_fixed_snoc points_of_step pushed_fixed_snoc by simp
  qed
qed

text \<open>
  C1. After any sequence of \<^verbatim>\<open>updateChartData\<close> calls on a fresh application, the chart
  buffer of every key holds the last 20 points pushed for that key (all of them while
  fewer than 20 were pushed), in arrival order, and never more than 20: the oldest
  point leaves first. This holds for the three parallel arrays of app.js and for the
  point list of app_fixed.js.
\<close>

theorem chart_buffer_fifo:
  "prices (series_of (run_updateChartData calls init_app) k) = lastn 20 (pushed_prices k calls) \<and>
   volumes (series_of (run_updateChartData calls init_app) k) =
     lastn 20 (pushed_volumes k calls) \<and>
   timestamps (series_of (run_updateChartData calls init_app) k) =
     lastn 20 (pushed_timestamps k calls) \<and>
   length (prices (series_of (run_updateChartData calls init_app) k)) \<le> 20 \<and>
   points_of (run_updateChartData_fixed calls_f init_app_fixed) k =
     lastn 20 (pushed_fixed k calls_f) \<and>
   length (points_of (run_updateChartData_fixed calls_f init_app_fixed) k) \<le> 20"
  by (simp add: series_fifo points_fifo length_lastn)

text \<open>Twenty-two updates of AAPL leave the prices 3 to 22: 1 and 2 were evicted, in that order.\<close>

theorem chart_buffer_fifo_witness:
  "prices (series_of (run_updateChartData aapl_calls init_app) ''AAPL'') =
     map JNum [3, 4, 5, 6, 7, 8, 9, 10, 11, 12, 13, 14, 15, 16, 17, 18, 19, 20, 21, 22]"
  using chart_buffer_fifo [of aapl_calls "''AAPL''" "[]"]
  by (simp add: aapl_calls_def pushed_prices_def pushes_def object_prototype_names_def
      nullish_def js_or_def field_def lastn_def)

lemma series_ok_push: "series_ok d \<Longrightarrow> series_ok (push_series sd now d)"
  by (simp add: series_ok_def push_series_def Let_def)

lemma list_all_update:
  "list_all P al \<Longrightarrow> P (k, v) \<Longrightarrow> list_all P (AList.update k v al)"
  by (induction al) auto

lemma list_all_map_of:
  "list_all P al \<Longrightarrow> map_of al k = Some v \<Longrightarrow> P (k, v)"
  by (induction al) (auto split: if_splits)

lemma series_ok_new: "series_ok new_series"
  by (simp add: series_ok_def new_series_def)

lemma series_ok_lookup:
  "chartData_ok a \<Longrightarrow>
   series_ok (case map_of (chartData a) k of None \<Rightarrow> new_series | Some d \<Rightarrow> d)"
  by (auto simp: chartData_ok_def series_ok_new split: option.splits
      dest: list_all_map_of [where P = "\<lambda>kd. series_ok (snd kd)"])

lemma chartData_ok_step:
  assumes "chartData_ok a"
  shows "chartData_ok (snd (updateChartData symbol sd now a))"
proof -
  let ?k = "str_of symbol"
  let ?d0 = "case map_of (chartData a) ?k of None \<Rightarrow> new_series | Some d \<Rightarrow> d"
  have d0: "series_ok ?d0"
    using assms by (rule series_ok_lookup)
  have al1: "list_all (\<lambda>kd. series_ok (snd kd)) (AList.update ?k ?d0 (chartData a))"
    using assms d0 by (simp add: chartData_ok_def list_all_update)
  have al2: "list_all (\<lambda>kd. series_ok (snd kd))
      (AList.update ?k (push_series sd now ?d0) (chartData a))"
    using assms d0 by (simp add: chartData_ok_def list_all_update series_ok_push)
  show ?thesis
    using assms al1 al2
    by (simp add: updateChartData_def chartData_ok_def Let_def split: option.split)
qed

lemma chartData_ok_run:
  "chartData_ok a \<Longrightarrow> chartData_ok (run_updateChartData calls a)"
proof (induction calls rule: rev_induct)
  case Nil
  then show ?case by (simp add: run_updateChartData_def)
next
  case (snoc c calls)
  obtain symbol sd now where c: "c = (symbol, sd, now)"
    by (cases c) auto
  from snoc show ?case
    unfolding c run_updateChartData_snoc by (intro chartData_ok_step) simp
qed

lemma chartData_ok_init: "chartData_ok init_app"
  by (simp add: chartData_ok_def init_app_def)

text \<open>
  C10. In app.js the arrays \<^verbatim>\<open>prices\<close>, \<^verbatim>\<open>volumes\<close> and \<^verbatim>\<open>timestamps\<close> of every
  \<^verbatim>\<open>chartData\<close> entry have the same length, at most 20: a new entry has it, every
  \<^verbatim>\<open>updateChartData\<close> call keeps it for all entries (whether it returns or throws), and
  so every entry reached from a fresh application has it.
\<close>

theorem chart_arrays_equal_length:
  "series_ok new_series \<and>
   (chartData_ok a \<longrightarrow> chartData_ok (snd (updateChartData symbol stockData now a))) \<and>
   (map_of (chartData (run_updateChartData calls init_app)) k = Some d \<longrightarrow>
      length (prices d) = length (volumes d) \<and> length (volumes d) = length (timestamps d) \<and>
      length (prices d) \<le> 20)"
proof (intro conjI impI)
  show "series_ok new_series"
    by (rule series_ok_new)
next
  assume "chartData_ok a"
  then show "chartData_ok (snd (updateChartData symbol stockData now a))"
    by (rule chartData_ok_step)
next
  assume d: "map_of (chartData (run_updateChartData calls init_app)) k = Some d"
  have "chartData_ok (run_updateChartData calls init_app)"
    by (rule chartData_ok_run [OF chartData_ok_init])
  then have "series_ok (snd (k, d))"
    unfolding chartData_ok_def using d by (rule list_all_map_of)
  then show "length (prices d) = length (volumes d)"
    and "length (volumes d) = length (timestamps d)" and "length (prices d) \<le> 20"
    by (simp_all add: series_ok_def)
qed

theorem chart_arrays_equal_length_witness:
  "chartData_ok init_app \<and>
   chartData_ok (snd (updateChartData (JStr ''AAPL'')
      (JObj [(''price'', JNum 150), (''volume'', JNum 1000)]) ''09:30:00'' init_app)) \<and>
   map_of (chartData (run_updateChartData
      [(JStr ''AAPL'', JObj [(''price'', JNum 150), (''volume'', JNum 1000)], ''09:30:00'')]
      init_app)) ''AAPL'' =
     Some \<lparr>prices = [JNum 150], volumes = [JNum 1000], timestamps = [''09:30:00'']\<rparr> \<and>
   length [JNum 150] = length [JNum 1000] \<and> length [JNum 1000] = length [''09:30:00''] \<and>
   length [JNum 150] \<le> 20"
proof -
  let ?sd = "JObj [(''price'', JNum 150), (''volume'', JNum 1000)]"
  let ?d = "\<lparr>prices = [JNum 150], volumes = [JNum 1000], timestamps = [''09:30:00'']\<rparr>"
  have ok: "chartData_ok init_app"
    by (simp add: chartData_ok_def init_app_def)
  have run: "map_of (chartData (run_updateChartData [(JStr ''AAPL'', ?sd, ''09:30:00'')]
      init_app)) ''AAPL'' = Some ?d"
    by (simp add: run_updateChartData_def updateChartData_def init_app_def
        object_prototype_names_def nullish_def new_series_def push_series_def Let_def
        js_or_def field_def)
  from chart_arrays_equal_length [of init_app "JStr ''AAPL''" ?sd "''09:30:00''"
      "[(JStr ''AAPL'', ?sd, ''09:30:00'')]" "''AAPL''" ?d] ok run
  show ?thesis by simp
qed

section \<open>Properties of the alert list\<close>

lemma take_append_take: "take n (ys @ take n zs) = take n (ys @ zs)"
  by (induction ys arbitrary: n) (auto simp: take_Cons' )

lemma butlast_take_20: "length xs = 21 \<Longrightarrow> butlast xs = take 20 xs"
  by (simp add: butlast_conv_take)

lemma alerts_handleAlert:
  "length (alerts a) \<le> 20 \<Longrightarrow> alerts (handleAlert ev a) = take 20 (ev # alerts a)"
  by (cases "length (alerts a) = 20") (simp_all add: handleAlert_def Let_def butlast_conv_take)

lemma alerts_run_handleAlert:
  "length (alerts a) \<le> 20 \<Longrightarrow> alerts (run_handleAlert evs a) = take 20 (rev evs @ alerts a)"
proof (induction evs arbitrary: a)
  case Nil
  then show ?case by (simp add: run_handleAlert_def)
next
  case (Cons ev evs)
  have "length (alerts (handleAlert ev a)) \<le> 20"
    using Cons.prems by (simp add: alerts_handleAlert)
  then have "alerts (run_handleAlert evs (handleAlert ev a)) =
      take 20 (rev evs @ alerts (handleAlert ev a))"
    by (rule Cons.IH)
  also have "\<dots> = take 20 (rev evs @ take 20 (ev # alerts a))"
    using Cons.prems by (simp add: alerts_handleAlert)
  also have "\<dots> = take 20 (rev evs @ ev # alerts a)"
    by (rule take_append_take)
  finally show ?case
    by (simp add: run_handleAlert_def)
qed

lemma alerts_run_handleAlert_fixed:
  "alerts_f (run_handleAlert_fixed evs b) = alerts_f b @ evs"
  by (induction evs arbitrary: b) (simp_all add: run_handleAlert_fixed_def handleAlert_fixed_def)

text \<open>
  C2, as amended. In app.js the alert list is bounded by 20: from a list of at most 20
  alerts, any run of \<^verbatim>\<open>handleAlert\<close> calls leaves the 20 newest alerts, newest first, and
  a call on a full list drops its last element, the oldest alert. In app_fixed.js
  \<^verbatim>\<open>handleAlert\<close> appends and evicts nothing: the list grows by one with every alert
  until \<^verbatim>\<open>clearAlerts\<close> empties it.
\<close>

theorem handleAlert_bound:
  "(length (alerts a) \<le> 20 \<longrightarrow>
      alerts (run_handleAlert evs a) = take 20 (rev evs @ alerts a) \<and>
      length (alerts (run_handleAlert evs a)) \<le> 20) \<and>
   (length (alerts a) = 20 \<longrightarrow> alerts (handleAlert ev a) = ev # butlast (alerts a)) \<and>
   alerts_f (run_handleAlert_fixed evs b) = alerts_f b @ evs \<and>
   length (alerts_f (run_handleAlert_fixed evs b)) = length (alerts_f b) + length evs \<and>
   alerts_f (clearAlerts b) = []"
proof (intro conjI impI)
  assume le: "length (alerts a) \<le> 20"
  then show eq: "alerts (run_handleAlert evs a) = take 20 (rev evs @ alerts a)"
    by (rule alerts_run_handleAlert)
  have "length (take 20 (rev evs @ alerts a)) \<le> 20"
    by simp
  then show "length (alerts (run_handleAlert evs a)) \<le> 20"
    by (simp only: eq)
next
  assume "length (alerts a) = 20"
  then show "alerts (handleAlert ev a) = ev # butlast (alerts a)"
    by (cases "alerts a") (simp_all add: handleAlert_def Let_def)
next
  show "alerts_f (run_handleAlert_fixed evs b) = alerts_f b @ evs"
    by (rule alerts_run_handleAlert_fixed)
  then show "length (alerts_f (run_handleAlert_fixed evs b)) = length (alerts_f b) + length evs"
    by simp
  show "alerts_f (clearAlerts b) = []"
    by (simp add: clearAlerts_def)
qed

theorem handleAlert_bound_witness:
  "length (alerts (init_app\<lparr>alerts := twenty_alerts\<rparr>)) = 20 \<and>
   alerts (run_handleAlert [JNum 21] (init_app\<lparr>alerts := twenty_alerts\<rparr>)) =
     map JNum [21, 20, 19, 18, 17, 16, 15, 14, 13, 12, 11, 10, 9, 8, 7, 6, 5, 4, 3, 2] \<and>
   alerts (handleAlert (JNum 21) (init_app\<lparr>alerts := twenty_alerts\<rparr>)) =
     map JNum [21, 20, 19, 18, 17, 16, 15, 14, 13, 12, 11, 10, 9, 8, 7, 6, 5, 4, 3, 2]"
  using handleAlert_bound [where a = "init_app\<lparr>alerts := twenty_alerts\<rparr>"
      and evs = "[JNum 21]" and ev = "JNum 21" and b = init_app_fixed]
  by (simp add: twenty_alerts_def)

text \<open>
  C2 as stated fails for app_fixed.js: 21 alerts leave a list of 21, and no capacity
  bounds the list.
\<close>

theorem handleAlert_fixed_unbounded:
  "length (alerts_f (run_handleAlert_fixed (replicate 21 (JStr ''alert'')) init_app_fixed)) = 21 \<and>
   \<not> (\<exists>cap. \<forall>evs. length (alerts_f (run_handleAlert_fixed evs init_app_fixed)) \<le> cap)"
proof
  show "length (alerts_f (run_handleAlert_fixed (replicate 21 (JStr ''alert'')) init_app_fixed)) = 21"
    by (simp add: alerts_run_handleAlert_fixed init_app_fixed_def)
  show "\<not> (\<exists>cap. \<forall>evs. length (alerts_f (run_handleAlert_fixed evs init_app_fixed)) \<le> cap)"
  proof
    assume "\<exists>cap. \<forall>evs. length (alerts_f (run_handleAlert_fixed evs init_app_fixed)) \<le> cap"
    then obtain cap where
      "\<forall>evs. length (alerts_f (run_handleAlert_fixed evs init_app_fixed)) \<le> cap" ..
    then have "length (alerts_f (run_handleAlert_fixed (replicate (Suc cap) JNull)
        init_app_fixed)) \<le> cap" ..
    then show False
      by (simp add: alerts_run_handleAlert_fixed)
  qed
qed

section \<open>Properties of the Series Store\<close>

text \<open>A sample that is not stale is accepted and becomes the last of its series.\<close>

lemma append_accepts:
  "\<not> is_stale s (series st (symbol, tr)) \<Longrightarrow> 0 < capacity (series st (symbol, tr)) \<Longrightarrow>
   fst (series_append recompute symbol tr s st) = Accepted \<and>
   last (samples (series (snd (series_append recompute symbol tr s st)) (symbol, tr))) = s"
  by (cases "samples (series st (symbol, tr))")
    (auto simp: series_append_def Let_def push_sample_def)

text \<open>
  C3. A sample whose timestamp is at most the last timestamp of its series is rejected:
  \<open>series_append\<close> returns \<open>Stale\<close> and the store it returns is the store it was given,
  so the series, its indicator snapshot and the published feed are unchanged.
\<close>

theorem append_stale_is_noop:
  "last_timestamp (series st (symbol, tr)) = Some t \<Longrightarrow> sample_timestamp s \<le> t \<Longrightarrow>
   series_append recompute symbol tr s st = (Stale, st) \<and>
   series (snd (series_append recompute symbol tr s st)) (symbol, tr) = series st (symbol, tr) \<and>
   snapshot (series (snd (series_append recompute symbol tr s st)) (symbol, tr)) =
     snapshot (series st (symbol, tr)) \<and>
   published (snd (series_append recompute symbol tr s st)) = published st"
  by (simp add: series_append_def is_stale_def Let_def)

theorem append_stale_is_noop_witness:
  "last_timestamp (series count_store (''AAPL'', Realtime)) = Some 10 \<and>
   sample_timestamp (aapl_sample 10) \<le> 10 \<and>
   series_append (\<lambda>i xs. length xs) ''AAPL'' Realtime (aapl_sample 10) count_store =
     (Stale, count_store)"
proof -
  have l: "last_timestamp (series count_store (''AAPL'', Realtime)) = Some 10"
    by (simp add: last_timestamp_def count_store_def aapl_sample_def)
  have t: "sample_timestamp (aapl_sample 10) \<le> 10"
    by (simp add: aapl_sample_def)
  from append_stale_is_noop [OF l t, of "\<lambda>i xs. length xs"] l t show ?thesis
    by simp
qed

section \<open>Properties of the message handlers\<close>

lemma map_of_filter_keys:
  "map_of (filter (\<lambda>kv. fst kv \<in> set ks) kvs) k = (if k \<in> set ks then map_of kvs k else None)"
  by (induction kvs) auto

lemma field_restrict: "k \<in> set ks \<Longrightarrow> field (restrict ks v) k = field v k"
  by (cases v) (simp_all add: field_def restrict_def map_of_filter_keys)

lemma nullish_restrict: "nullish (restrict ks v) = nullish v"
  by (cases v) (simp_all add: nullish_def restrict_def)

lemma map_of_filter_neq:
  "map_of (filter (\<lambda>kv. fst kv \<noteq> k) kvs) k' = (if k' = k then None else map_of kvs k')"
  by (induction kvs) auto

lemma field_without: "k' \<noteq> k \<Longrightarrow> field (without k v) k' = field v k'"
  by (cases v) (simp_all add: field_def without_def map_of_filter_neq)

lemma nullish_without: "nullish (without k v) = nullish v"
  by (cases v) (simp_all add: nullish_def without_def)


lemma stocks_updateChartData_fixed:
  "stocks_f (snd (updateChartData_fixed symbol sd now color a)) = stocks_f a"
  by (simp add: updateChartData_fixed_def Let_def)

lemma own_obj_assign:
  "k \<noteq> ''__proto__'' \<Longrightarrow> map_of (own (obj_assign k lit ob)) k = Some (JObj lit)"
  by (simp add: obj_assign_def update_conv')


lemma stocks_handleStockUpdate_fixed:
  assumes "\<not> nullish msg" and "\<not> conv_throws (field msg ''symbol'')"
  shows "stocks_f (snd (handleStockUpdate_fixed now color msg a)) =
           obj_assign (str_of (field msg ''symbol''))
             (AList.update ''lastUpdate'' (field msg ''timestamp'')
                (AList.update ''symbol'' (field msg ''symbol'') (own_props (field msg ''data''))))
             (stocks_f a)"
  using assms
  by (simp add: handleStockUpdate_fixed_def Let_def stocks_updateChartData_fixed
      split: option.split)





lemma card_restrict:
  "alert_card_of (restrict card_fields v) = alert_card_of v"
  "card_throws (restrict card_fields v) = card_throws v"
  "alert_card_fixed_of (restrict card_fields_fixed v) = alert_card_fixed_of v"
  "card_throws_fixed (restrict card_fields_fixed v) = card_throws_fixed v"
  by (simp_all add: alert_card_of_def card_throws_def alert_card_fixed_of_def
      card_throws_fixed_def card_fields_def card_fields_fixed_def field_restrict nullish_restrict)

lemma list_ex_map: "list_ex P (map f xs) = list_ex (\<lambda>x. P (f x)) xs"
  by (induction xs) auto

text \<open>
  C5. Every attribute \<^verbatim>\<open>updateAlertsDisplay\<close> shows is a field of the AlertEvent
  structure: the card depends on \<^verbatim>\<open>type\<close>, \<^verbatim>\<open>symbol\<close>, \<^verbatim>\<open>timestamp\<close> and \<^verbatim>\<open>message\<close> only
  (app_fixed.js: \<^verbatim>\<open>symbol\<close>, \<^verbatim>\<open>message\<close>, \<^verbatim>\<open>timestamp\<close>), and for an alert event with the
  six fields the card shows the event's own symbol, type (the class), timestamp and
  message.
\<close>

theorem updateAlertsDisplay_reads_alert_fields:
  "set card_fields \<subseteq> set alert_fields \<and> set card_fields_fixed \<subseteq> set alert_fields \<and>
   updateAlertsDisplay (a\<lparr>alerts := map (restrict card_fields) (alerts a)\<rparr>) =
     updateAlertsDisplay a \<and>
   updateAlertsDisplay_fixed (b\<lparr>alerts_f := map (restrict card_fields_fixed) (alerts_f b)\<rparr>) =
     updateAlertsDisplay_fixed b \<and>
   updateAlertsDisplay (a\<lparr>alerts := [alert_event symbol type severity message payload timestamp]\<rparr>) =
     (if conv_throws (js_or type (JStr ''warning'')) \<or> conv_throws symbol \<or>
         conv_throws timestamp \<or> conv_throws message
      then Inl TypeError
      else Inr (Cards [\<lparr>card_class = js_or type (JStr ''warning''), card_symbol = symbol,
                         card_time = timestamp, card_message = message\<rparr>])) \<and>
   updateAlertsDisplay_fixed
       (b\<lparr>alerts_f := [alert_event symbol type severity message payload timestamp]\<rparr>) =
     (if conv_throws symbol \<or> conv_throws message \<or> conv_throws timestamp
      then Inl TypeError
      else Inr [\<lparr>fcard_symbol = symbol, fcard_message = message, fcard_time = timestamp\<rparr>])"
proof (intro conjI)
  show "set card_fields \<subseteq> set alert_fields" and "set card_fields_fixed \<subseteq> set alert_fields"
    by (simp_all add: card_fields_def card_fields_fixed_def alert_fields_def)
  show "updateAlertsDisplay (a\<lparr>alerts := map (restrict card_fields) (alerts a)\<rparr>) =
      updateAlertsDisplay a"
    by (simp add: updateAlertsDisplay_def list_ex_map card_restrict comp_def)
  show "updateAlertsDisplay_fixed (b\<lparr>alerts_f := map (restrict card_fields_fixed) (alerts_f b)\<rparr>) =
      updateAlertsDisplay_fixed b"
    by (simp add: updateAlertsDisplay_fixed_def list_ex_map card_restrict comp_def)
  show "updateAlertsDisplay
      (a\<lparr>alerts := [alert_event symbol type severity message payload timestamp]\<rparr>) =
     (if conv_throws (js_or type (JStr ''warning'')) \<or> conv_throws symbol \<or>
         conv_throws timestamp \<or> conv_throws message
      then Inl TypeError
      else Inr (Cards [\<lparr>card_class = js_or type (JStr ''warning''), card_symbol = symbol,
                         card_time = timestamp, card_message = message\<rparr>]))"
    by (simp add: updateAlertsDisplay_def card_throws_def alert_card_of_def alert_event_def
        field_def nullish_def)
  show "updateAlertsDisplay_fixed
       (b\<lparr>alerts_f := [alert_event symbol type severity message payload timestamp]\<rparr>) =
     (if conv_throws symbol \<or> conv_throws message \<or> conv_throws timestamp
      then Inl TypeError
      else Inr [\<lparr>fcard_symbol = symbol, fcard_message = message, fcard_time = timestamp\<rparr>])"
    by (simp add: updateAlertsDisplay_fixed_def card_throws_fixed_def alert_card_fixed_of_def
        alert_event_def field_def nullish_def)
qed

theorem updateAlertsDisplay_reads_alert_fields_witness:
  "updateAlertsDisplay (init_app\<lparr>alerts :=
       [alert_event (JStr ''AAPL'') (JStr ''price_abnormal'') (JStr ''high'') (JStr ''up 6%'')
          (JObj [(''price_change'', JNum 6)]) (JNum 1700000000)]\<rparr>) =
     Inr (Cards [\<lparr>card_class = JStr ''price_abnormal'', card_symbol = JStr ''AAPL'',
                   card_time = JNum 1700000000, card_message = JStr ''up 6%''\<rparr>])"
  using updateAlertsDisplay_reads_alert_fields [of init_app init_app_fixed "JStr ''AAPL''"
      "JStr ''price_abnormal''" "JStr ''high''" "JStr ''up 6%''"
      "JObj [(''price_change'', JNum 6)]" "JNum 1700000000"]
  by (simp add: js_or_def)

lemma updateSystemInfo_without:
  "updateSystemInfo (without ''running'' data) = updateSystemInfo data"
  by (simp add: updateSystemInfo_def field_without nullish_without)

text \<open>
  C6, as amended. \<^verbatim>\<open>loadSystemStatus\<close> decides from the field \<^verbatim>\<open>status\<close>: the engine counts
  as running exactly when \<^verbatim>\<open>status\<close> is the string \<^verbatim>\<open>'running'\<close> (app.js sets
  \<^verbatim>\<open>isMonitoring\<close> to that, app_fixed.js shows ``running'' then). A field \<^verbatim>\<open>running\<close> is
  never read: removing it from the reply changes nothing.
\<close>

theorem loadSystemStatus_reads_status:
  "loadSystemStatus (Some (without ''running'' data)) a = loadSystemStatus (Some data) a \<and>
   loadSystemStatus_fixed (Some (without ''running'' data)) b =
     loadSystemStatus_fixed (Some data) b \<and>
   (updateSystemInfo data = None \<longrightarrow>
      isMonitoring (loadSystemStatus (Some data) a) = (field data ''status'' = JStr ''running'')) \<and>
   (\<not> nullish data \<longrightarrow>
      loadSystemStatus_fixed (Some data) b =
        (if field data ''status'' = JStr ''running''
         then b\<lparr>statusShown_f := Some (Text_running, ''running'')\<rparr> else b))"
proof (intro conjI impI)
  have f: "field (without ''running'' data) ''status'' = field data ''status''"
    by (simp add: field_without)
  show "loadSystemStatus (Some (without ''running'' data)) a = loadSystemStatus (Some data) a"
    by (simp add: loadSystemStatus_def updateSystemInfo_without f split: option.split)
  show "loadSystemStatus_fixed (Some (without ''running'' data)) b =
      loadSystemStatus_fixed (Some data) b"
    by (simp add: loadSystemStatus_fixed_def nullish_without f)
next
  assume "updateSystemInfo data = None"
  then show "isMonitoring (loadSystemStatus (Some data) a) =
      (field data ''status'' = JStr ''running'')"
    by (simp add: loadSystemStatus_def updateStatus_def Let_def)
next
  assume "\<not> nullish data"
  then show "loadSystemStatus_fixed (Some data) b =
      (if field data ''status'' = JStr ''running''
       then b\<lparr>statusShown_f := Some (Text_running, ''running'')\<rparr> else b)"
    by (simp add: loadSystemStatus_fixed_def updateStatus_fixed_def)
qed

theorem loadSystemStatus_reads_status_witness:
  "updateSystemInfo (JObj [(''status'', JStr ''running'')]) = None \<and>
   \<not> nullish (JObj [(''status'', JStr ''running'')]) \<and>
   isMonitoring (loadSystemStatus (Some (JObj [(''status'', JStr ''running'')])) init_app) = True \<and>
   loadSystemStatus_fixed (Some (JObj [(''status'', JStr ''running'')])) init_app_fixed =
     init_app_fixed\<lparr>statusShown_f := Some (Text_running, ''running'')\<rparr>"
  using loadSystemStatus_reads_status [of "JObj [(''status'', JStr ''running'')]" init_app
      init_app_fixed]
  by (simp add: updateSystemInfo_def nullish_def field_def js_or_def opt_length_def)

lemmas eval_status =
  loadSystemStatus_def loadSystemStatus_fixed_def updateSystemInfo_def status_reply_def
  updateStatus_def updateStatus_fixed_def opt_length_def init_app_def init_app_fixed_def
  nullish_def js_or_def field_def Let_def

text \<open>
  C6 as stated fails: for the reply of the spec with \<^verbatim>\<open>running: true\<close> app.js concludes
  that nothing is monitored and app_fixed.js shows nothing, the same as for
  \<^verbatim>\<open>running: false\<close>.
\<close>

theorem loadSystemStatus_ignores_running:
  "isMonitoring (loadSystemStatus
      (Some (status_reply True (JNum 3) (JNum 0) (JNum 1700000000))) init_app) = False \<and>
   loadSystemStatus (Some (status_reply True (JNum 3) (JNum 0) (JNum 1700000000))) init_app =
     loadSystemStatus (Some (status_reply False (JNum 3) (JNum 0) (JNum 1700000000))) init_app \<and>
   loadSystemStatus_fixed
       (Some (status_reply True (JNum 3) (JNum 0) (JNum 1700000000))) init_app_fixed =
     init_app_fixed \<and>
   loadSystemStatus_fixed
       (Some (status_reply False (JNum 3) (JNum 0) (JNum 1700000000))) init_app_fixed =
     init_app_fixed"
  by (simp add: eval_status)




section \<open>Properties of formatVolume\<close>





text \<open>
  \<open>cents\<close> is the rule of \<^verbatim>\<open>toFixed(2)\<close>: the integer nearest to a hundred times the exact
  value of the double, the larger one of two.
\<close>

lemma cents_double_val:
  assumes "0 \<le> fst d"
  shows "int (cents d) = \<lfloor>double_val d * 100 + 1 / 2\<rfloor>"
proof (cases "0 \<le> snd d")
  case True
  have "double_val d * 100 + 1 / 2 = of_int (100 * fst d * 2 ^ nat (snd d)) + 1 / 2"
    using True by (simp add: double_val_def power_int_def)
  also have "\<lfloor>\<dots>\<rfloor> = 100 * fst d * 2 ^ nat (snd d)"
    by (rule floor_unique) simp_all
  finally show ?thesis
    using True assms by (simp add: cents_def Let_def)
next
  case False
  define j where "j = nat (- snd d)"
  have k: "snd d = - int j" "nat (1 - snd d) = Suc j"
    using False by (simp_all add: j_def)
  have "double_val d * 100 + 1 / 2 =
      of_int (200 * fst d + 2 ^ j) / of_int (2 ^ Suc j)"
    using False by (simp add: double_val_def power_int_def k field_simps)
  also have "\<lfloor>\<dots>\<rfloor> = (200 * fst d + 2 ^ j) div 2 ^ Suc j"
    by (rule floor_divide_of_int_eq)
  finally have "\<lfloor>double_val d * 100 + 1 / 2\<rfloor> = (200 * fst d + 2 ^ j) div 2 ^ Suc j" .
  moreover have "0 \<le> (200 * fst d + 2 ^ j) div (2 ^ Suc j :: int)"
    using assms by (intro pos_imp_zdiv_nonneg_iff [THEN iffD2]) simp_all
  ultimately show ?thesis
    using False by (simp add: cents_def Let_def k(2) j_def [symmetric])
qed

lemma flog2_bounds:
  "0 < b \<Longrightarrow> b \<le> a \<Longrightarrow> b * 2 ^ flog2 a b \<le> a \<and> a < b * 2 ^ Suc (flog2 a b)"
proof (induction a b rule: flog2.induct)
  case (1 a b)
  show ?case
  proof (cases "a < 2 * b")
    case True
    with "1.prems" show ?thesis
      by (simp add: flog2.simps [of a b])
  next
    case False
    with "1.prems" have "2 * b * 2 ^ flog2 a (2 * b) \<le> a \<and> a < 2 * b * 2 ^ Suc (flog2 a (2 * b))"
      by (intro "1.IH") simp_all
    with False "1.prems" show ?thesis
      by (simp add: flog2.simps [of a b] mult_ac)
  qed
qed

lemma round_div_bound:
  assumes "0 < d"
  shows "2 * \<bar>round_div N d * d - N\<bar> \<le> d"
proof -
  have N: "N = (N div d) * d + N mod d"
    by simp
  have r: "0 \<le> N mod d" "N mod d < d"
    using assms by simp_all
  define f where "f = N div d"
  define r where "r = N mod d"
  have "N = f * d + r" "0 \<le> r" "r < d"
    using N r by (simp_all add: f_def r_def)
  then show ?thesis
    unfolding round_div_def Let_def f_def [symmetric] r_def [symmetric]
    by (auto simp: algebra_simps abs_if)
qed



text \<open>
  \<open>js_div n d\<close> is a double nearest to the quotient: a mantissa of 53 bits, at most half
  a unit in the last place away from \<open>n / d\<close>.
\<close>

lemma js_div_nearest:
  assumes d: "0 < d" and n: "d \<le> n" "n < d * 2 ^ 53"
  shows "2 ^ 52 \<le> fst (js_div n d) \<and> fst (js_div n d) \<le> 2 ^ 53 \<and>
         \<bar>double_val (js_div n d) - of_int n / of_int d\<bar> * 2 \<le> 2 powi snd (js_div n d)"
proof -
  define e where "e = flog2 n d"
  have b: "d * 2 ^ e \<le> n" "n < d * (2 * 2 ^ e)"
    using flog2_bounds [OF d n(1)] by (simp_all add: e_def)
  have "d * 2 ^ e < d * 2 ^ 53"
    using b(1) n(2) by (rule le_less_trans)
  then have "(2::int) ^ e < 2 ^ 53"
    using d by (simp only: mult_less_cancel_left_pos)
  then have "e < 53"
    by (rule power_less_imp_less_exp [rotated]) simp
  then have e52: "e \<le> 52"
    by simp
  define P :: int where "P = 2 ^ (52 - e)"
  have Ppos: "0 < P"
    by (simp add: P_def)
  have "P * 2 ^ e = 2 ^ (52 - e + e)"
    unfolding P_def by (simp only: power_add)
  then have P2e: "P * 2 ^ e = 2 ^ 52"
    using e52 by simp
  define m where "m = round_div (n * P) d"
  have jd: "js_div n d = (m, int e - 52)"
    using n(1) e52 by (simp add: js_div_def exponent_def Let_def e_def m_def P_def nat_diff_distrib')
  have A: "2 * \<bar>m * d - n * P\<bar> \<le> d"
    unfolding m_def by (rule round_div_bound [OF d])
  have lo: "d * 2 ^ 52 \<le> n * P"
  proof -
    have "(d * 2 ^ e) * P \<le> n * P"
      using b(1) Ppos by (intro mult_right_mono) simp_all
    moreover have "(d * 2 ^ e) * P = d * (P * 2 ^ e)"
      by (simp add: mult_ac)
    ultimately have "d * (P * 2 ^ e) \<le> n * P"
      by (simp only:)
    then show ?thesis
      unfolding P2e .
  qed
  have hi: "n * P < d * 2 ^ 53"
  proof -
    have "n * P < (d * (2 * 2 ^ e)) * P"
      using b(2) Ppos by (intro mult_strict_right_mono) simp_all
    also have "\<dots> = d * (2 * (P * 2 ^ e))"
      by (simp add: mult_ac)
    finally have "n * P < d * (2 * (P * 2 ^ e))" .
    then show ?thesis
      unfolding P2e by simp
  qed
  define md where "md = m * d"
  define nP where "nP = n * P"
  have A': "2 * \<bar>md - nP\<bar> \<le> d"
    using A by (simp only: md_def nP_def)
  have lo': "d * 2 ^ 52 \<le> nP" and hi': "nP < d * 2 ^ 53"
    using lo hi by (simp_all only: nP_def)
  have m_lo: "2 ^ 52 \<le> m"
  proof (rule ccontr)
    assume "\<not> 2 ^ 52 \<le> m"
    then have "m + 1 \<le> 2 ^ 52"
      by simp
    then have "d * (m + 1) \<le> d * 2 ^ 52"
      using d by (intro mult_left_mono) simp_all
    then have "md + d \<le> d * 2 ^ 52"
      by (simp only: distrib_left mult_1_right mult.commute [of d m] md_def)
    then have "md + d \<le> nP"
      using lo' by (rule order_trans)
    with A' d show False
      by arith
  qed
  have m_hi: "m \<le> 2 ^ 53"
  proof (rule ccontr)
    assume "\<not> m \<le> 2 ^ 53"
    then have "2 ^ 53 + 1 \<le> m"
      by simp
    then have "d * (2 ^ 53 + 1) \<le> d * m"
      using d by (intro mult_left_mono) simp_all
    then have "d * 2 ^ 53 + d \<le> md"
      by (simp only: distrib_left mult_1_right mult.commute [of d m] md_def)
    with hi' have "nP + d < md"
      by arith
    with A' d show False
      by arith
  qed
  have pw: "(2::rat) powi (int e - 52) = 1 / of_int P"
    using e52 by (simp add: power_int_def P_def nat_diff_distrib' inverse_eq_divide power_one_over)
  have "double_val (js_div n d) - of_int n / of_int d =
      of_int (m * d - n * P) / (of_int P * of_int d)"
    using d Ppos by (simp add: jd double_val_def pw field_simps)
  then have "\<bar>double_val (js_div n d) - of_int n / of_int d\<bar> * 2 =
      of_int (2 * \<bar>m * d - n * P\<bar>) / (of_int P * of_int d)"
    using d Ppos by (simp add: abs_mult abs_divide)
  also have "\<dots> \<le> of_int d / (of_int P * of_int d)"
    using A d Ppos by (intro divide_right_mono) (simp_all only: of_int_le_iff, simp)
  also have "\<dots> = 2 powi snd (js_div n d)"
    using d by (simp add: jd pw)
  finally show ?thesis
    using m_lo m_hi by (simp add: jd)
qed





section \<open>Properties of addStock\<close>

lemma upper_char_not_lower: "upper_char c \<notin> set ''abcdefghijklmnopqrstuvwxyz''"
  by (simp add: upper_char_def)

lemma toUpperCase_no_lower:
  "c \<in> set (toUpperCase s) \<Longrightarrow> c \<notin> set ''abcdefghijklmnopqrstuvwxyz''"
  using upper_char_not_lower by (auto simp: toUpperCase_def simp del: set_simps)

lemma toUpperCase_not_prototype_name: "toUpperCase s \<notin> set object_prototype_names"
proof
  assume "toUpperCase s \<in> set object_prototype_names"
  then have "CHR ''o'' \<in> set (toUpperCase s) \<or> CHR ''e'' \<in> set (toUpperCase s)"
    by (auto simp: object_prototype_names_def)
  then show False
    using toUpperCase_no_lower [of "CHR ''o''" s] toUpperCase_no_lower [of "CHR ''e''" s]
    by auto
qed

lemma map_of_truthy:
  "list_all (\<lambda>kv. truthy (snd kv)) al \<Longrightarrow> map_of al k = Some v \<Longrightarrow> truthy v"
  by (induction al) (auto split: if_splits)

lemma map_of_None_iff: "(map_of al k = None) = (k \<notin> fst ` set al)"
  by (simp add: map_of_eq_None_iff)

lemma obj_truthy_key:
  assumes "proto ob = None" and "list_all (\<lambda>kv. truthy (snd kv)) (own ob)"
    and "k \<notin> set object_prototype_names"
  shows "obj_truthy ob k = (k \<in> fst ` set (own ob))"
proof (cases "map_of (own ob) k")
  case None
  then show ?thesis
    using assms by (simp add: obj_truthy_def map_of_None_iff [symmetric])
next
  case (Some v)
  then have "truthy v"
    using assms(2) by (simp add: map_of_truthy)
  moreover have "k \<in> fst ` set (own ob)"
    using Some by (metis map_of_None_iff option.distinct(1))
  ultimately show ?thesis
    using Some by (simp add: obj_truthy_def)
qed

lemma obj_truthy_after_update:
  assumes "\<not> nullish msg" and "\<not> conv_throws (field msg ''symbol'')"
    and "str_of (field msg ''symbol'') \<noteq> ''__proto__''"
  shows "obj_truthy (stocks_f (snd (handleStockUpdate_fixed now color msg a)))
           (str_of (field msg ''symbol''))"
  using assms
  by (simp add: stocks_handleStockUpdate_fixed obj_truthy_def own_obj_assign)

lemma stocks_plain_update:
  assumes "stocks_plain (stocks_f a)"
    and "nullish msg \<or> conv_throws (field msg ''symbol'') \<or>
         str_of (field msg ''symbol'') \<noteq> ''__proto__''"
  shows "stocks_plain (stocks_f (snd (handleStockUpdate_fixed now color msg a)))"
proof (cases "nullish msg \<or> conv_throws (field msg ''symbol'')")
  case True
  then show ?thesis
    using assms(1) by (auto simp: handleStockUpdate_fixed_def Let_def)
next
  case False
  with assms(2) have k: "str_of (field msg ''symbol'') \<noteq> ''__proto__''"
    by simp
  from False have "stocks_f (snd (handleStockUpdate_fixed now color msg a)) =
      obj_assign (str_of (field msg ''symbol''))
        (AList.update ''lastUpdate'' (field msg ''timestamp'')
           (AList.update ''symbol'' (field msg ''symbol'') (own_props (field msg ''data''))))
        (stocks_f a)"
    by (simp add: stocks_handleStockUpdate_fixed)
  then show ?thesis
    using assms(1) k by (simp add: stocks_plain_def obj_assign_def list_all_update)
qed

text \<open>
  C9, as amended. \<^verbatim>\<open>addStock\<close> never changes \<^verbatim>\<open>this.stocks\<close>. It emits one
  \<^verbatim>\<open>subscribe_stock\<close> request, for the trimmed, upper-cased input, exactly when that symbol
  is not empty and \<^verbatim>\<open>this.stocks[symbol]\<close> is falsy, and nothing otherwise. Where
  \<^verbatim>\<open>this.stocks\<close> is as \<^verbatim>\<open>handleStockUpdate\<close> fills it, the lookup is falsy exactly when
  the symbol is not a key. The lookup is truthy for a symbol once a \<^verbatim>\<open>stock_update\<close> for
  it has been stored, not before: \<^verbatim>\<open>addStock\<close> itself records nothing.
\<close>

theorem addStock_subscribes:
  "stocks_f (addStock a) = stocks_f a \<and>
   emitted_f (addStock a) =
     (case stockSymbol_f a of
        None \<Rightarrow> emitted_f a
      | Some v \<Rightarrow>
          if toUpperCase (trim v) \<noteq> [] \<and> \<not> obj_truthy (stocks_f a) (toUpperCase (trim v))
          then emitted_f a @ [subscribe (toUpperCase (trim v))]
          else emitted_f a) \<and>
   (stocks_plain (stocks_f a) \<longrightarrow>
      obj_truthy (stocks_f a) (toUpperCase s) = (toUpperCase s \<in> fst ` set (own (stocks_f a)))) \<and>
   (\<not> nullish msg \<and> \<not> conv_throws (field msg ''symbol'') \<and>
    str_of (field msg ''symbol'') \<noteq> ''__proto__'' \<longrightarrow>
      obj_truthy (stocks_f (snd (handleStockUpdate_fixed now color msg a)))
        (str_of (field msg ''symbol'')))"
proof (intro conjI impI)
  show "stocks_f (addStock a) = stocks_f a"
    by (simp add: addStock_def Let_def split: option.split)
  show "emitted_f (addStock a) =
     (case stockSymbol_f a of
        None \<Rightarrow> emitted_f a
      | Some v \<Rightarrow>
          if toUpperCase (trim v) \<noteq> [] \<and> \<not> obj_truthy (stocks_f a) (toUpperCase (trim v))
          then emitted_f a @ [subscribe (toUpperCase (trim v))]
          else emitted_f a)"
    by (simp add: addStock_def subscribe_def Let_def split: option.split)
next
  assume "stocks_plain (stocks_f a)"
  then show "obj_truthy (stocks_f a) (toUpperCase s) =
      (toUpperCase s \<in> fst ` set (own (stocks_f a)))"
    by (simp add: stocks_plain_def obj_truthy_key toUpperCase_not_prototype_name)
next
  assume "\<not> nullish msg \<and> \<not> conv_throws (field msg ''symbol'') \<and>
    str_of (field msg ''symbol'') \<noteq> ''__proto__''"
  then show "obj_truthy (stocks_f (snd (handleStockUpdate_fixed now color msg a)))
      (str_of (field msg ''symbol''))"
    by (simp add: obj_truthy_after_update)
qed

text \<open>
  On a fresh page \<open>'' aapl ''\<close> is subscribed as AAPL; after a \<^verbatim>\<open>stock_update\<close> for AAPL
  the same input is refused.
\<close>

theorem addStock_subscribes_witness:
  "stocks_plain (stocks_f (type_symbol '' aapl '' init_app_fixed)) \<and>
   emitted_f (addStock (type_symbol '' aapl '' init_app_fixed)) = [subscribe ''AAPL''] \<and>
   obj_truthy (stocks_f (type_symbol '' aapl '' init_app_fixed)) (toUpperCase ''aapl'') = False \<and>
   \<not> nullish (JObj [(''symbol'', JStr ''AAPL'')]) \<and>
   obj_truthy (stocks_f (snd (handleStockUpdate_fixed ''t'' ''c''
       (JObj [(''symbol'', JStr ''AAPL'')]) (type_symbol '' aapl '' init_app_fixed)))) ''AAPL''"
  using addStock_subscribes [of "type_symbol '' aapl '' init_app_fixed" "''aapl''"
      "JObj [(''symbol'', JStr ''AAPL'')]" "''t''" "''c''"]
  by (simp add: type_symbol_def init_app_fixed_def empty_object_def obj_truthy_def
      stocks_plain_def object_prototype_names_def trim_def toUpperCase_def upper_char_def
      is_space_def nullish_def field_def)

lemmas eval_addStock =
  addStock_def type_symbol_def init_app_fixed_def empty_object_def obj_truthy_def
  object_prototype_names_def trim_def toUpperCase_def upper_char_def is_space_def subscribe_def
  Let_def

text \<open>
  C9 as stated fails in its last part: \<^verbatim>\<open>addStock\<close> does not record what it subscribed,
  so entering the same symbol twice before a \<^verbatim>\<open>stock_update\<close> for it arrives subscribes
  it twice.
\<close>

theorem addStock_subscribes_twice:
  "emitted_f (addStock (type_symbol '' aapl '' (addStock (type_symbol ''aapl'' init_app_fixed)))) =
     [subscribe ''AAPL'', subscribe ''AAPL'']"
  by (simp add: eval_addStock)

end
